theory Spec2Isabelle
  imports Complex_Main "HOL-Library.Word"
begin

section \<open>Strings and numbers of the source\<close>

text \<open>
  A JavaScript string is a sequence of 16-bit code units, so a name such as the two
  ideographs U+5F20 U+4E09 is a list of two words. A JavaScript number is modelled as a
  real: the arithmetic of the source (\<open>1 + 2 * t\<close>, \<open>offset + 25\<close>) is read exactly, the
  rounding of doubles is outside the model.
\<close>

type_synonym code_unit = "16 word"
type_synonym jstring = "code_unit list"
type_synonym number = real

definition ascii :: "string \<Rightarrow> jstring" where
  "ascii s = map (\<lambda>c. word_of_nat (of_char c)) s"

section \<open>Data model (src/src/App.tsx)\<close>

text \<open>\<open>interface CardData\<close>; the field \<open>id\<close> is named \<open>card_id\<close> here.\<close>

record CardData =
  card_id :: jstring
  chineseName :: jstring
  englishName :: jstring
  chineseCompany :: jstring
  englishCompany :: jstring

text \<open>
  The four keys of the objects \<open>fontSize\<close>, \<open>offsets\<close>, \<open>fontFamilies\<close> and
  \<open>letterSpacings\<close>; such an object is a function from its key.
\<close>

datatype field = ChineseName | EnglishName | ChineseCompany | EnglishCompany

text \<open>The object \<open>{ x, y }\<close> of the crop-mark calibration, in millimetres.\<close>

record CropOffset =
  crop_x :: number
  crop_y :: number

text \<open>
  The layout state of the component \<open>App\<close>: one field for each \<open>useState\<close> that the
  rendering reads.
\<close>

record layout =
  fontSize :: "field \<Rightarrow> number"
  offsets :: "field \<Rightarrow> number"
  fontFamilies :: "field \<Rightarrow> jstring"
  letterSpacings :: "field \<Rightarrow> number"
  globalSpacing :: number
  printRotate :: bool
  previewScale :: number
  enableTwoCharWidening :: bool
  showCropMarks :: bool
  showFoldLine :: bool
  cropOffset :: CropOffset

text \<open>The initial values of the \<open>useState\<close> calls (the same values \<open>resetToDefault\<close> restores).\<close>

definition default_fontSize :: "field \<Rightarrow> number" where
  "default_fontSize f = (case f of ChineseName \<Rightarrow> 120 | EnglishName \<Rightarrow> 90
     | ChineseCompany \<Rightarrow> 48 | EnglishCompany \<Rightarrow> 36)"

definition default_offsets :: "field \<Rightarrow> number" where
  "default_offsets f = 0"

definition default_fontFamilies :: "field \<Rightarrow> jstring" where
  "default_fontFamilies f = (case f of ChineseName \<Rightarrow> ascii ''TableCardCN''
     | EnglishName \<Rightarrow> ascii ''TableCardEN''
     | ChineseCompany \<Rightarrow> ascii ''TableCardCN''
     | EnglishCompany \<Rightarrow> ascii ''TableCardEN'')"

definition default_letterSpacings :: "field \<Rightarrow> number" where
  "default_letterSpacings f = (case f of ChineseName \<Rightarrow> 1 / 10 | EnglishName \<Rightarrow> 5 / 100
     | ChineseCompany \<Rightarrow> 0 | EnglishCompany \<Rightarrow> 0)"

definition initial_layout :: layout where
  "initial_layout = \<lparr> fontSize = default_fontSize, offsets = default_offsets,
     fontFamilies = default_fontFamilies, letterSpacings = default_letterSpacings,
     globalSpacing = 21, printRotate = True, previewScale = 75 / 100,
     enableTwoCharWidening = True, showCropMarks = True, showFoldLine = False,
     cropOffset = \<lparr> crop_x = 0, crop_y = 0 \<rparr> \<rparr>"

text \<open>
  A record to run the rendering on: the two ideographs U+5F20 U+4E09 as the Chinese name,
  \<open>San Zhang\<close>, a unit of four ideographs and \<open>Sample Org\<close>. A second one is the card that
  \<open>addEmptyCard\<close> creates.
\<close>

definition sample_card :: CardData where
  "sample_card = \<lparr> card_id = ascii ''k3j9x0q1z'', chineseName = [0x5F20, 0x4E09],
     englishName = ascii ''San Zhang'', chineseCompany = [0x793A, 0x4F8B, 0x5355, 0x4F4D],
     englishCompany = ascii ''Sample Org'' \<rparr>"

definition empty_card :: CardData where
  "empty_card = \<lparr> card_id = ascii ''p7m2c5d8w'', chineseName = [0x59D3, 0x540D],
     englishName = ascii ''Name'',
     chineseCompany = [0x6240, 0x5728, 0x5355, 0x4F4D, 0x2F, 0x90E8, 0x95E8],
     englishCompany = ascii ''Organization Name'' \<rparr>"

section \<open>Style values\<close>

text \<open>
  A length with its unit. A template literal whose sign is put in by string
  concatenation (\<open>`-${v}em`\<close>) is kept as the list of its pieces, literal text and
  interpolated numbers, in the order of the source.
\<close>

datatype css_len = Mm number | Pt number | Px number

datatype part = Lit string | Num number

datatype transform = Scale number | TranslateY css_len

text \<open>
  The expression inside \<open>calc( )\<close>: numbers, lengths, sums, differences, products.
\<close>

datatype calc = CNum number | CLen css_len | CAdd calc calc | CSub calc calc | CMul calc calc

text \<open>
  The value of a length in millimetres, by the absolute units of CSS: 1in = 25.4mm = 72pt
  = 96px. \<open>calc_mm\<close> gives a length in millimetres and a plain number as itself.
\<close>

fun len_mm :: "css_len \<Rightarrow> number" where
  "len_mm (Mm v) = v"
| "len_mm (Pt v) = v * 254 / 720"
| "len_mm (Px v) = v * 254 / 960"

fun calc_mm :: "calc \<Rightarrow> number" where
  "calc_mm (CNum v) = v"
| "calc_mm (CLen l) = len_mm l"
| "calc_mm (CAdd a b) = calc_mm a + calc_mm b"
| "calc_mm (CSub a b) = calc_mm a - calc_mm b"
| "calc_mm (CMul a b) = calc_mm a * calc_mm b"

section \<open>The two-character test\<close>

text \<open>
  \<open>String.prototype.trim\<close> removes white space and line terminators from both ends;
  the set is the one of the language definition.
\<close>

definition isWhiteSpace :: "code_unit \<Rightarrow> bool" where
  "isWhiteSpace c = (c = 0x0009 \<or> c = 0x000A \<or> c = 0x000B \<or> c = 0x000C \<or> c = 0x000D
     \<or> c = 0x0020 \<or> c = 0x00A0 \<or> c = 0x1680 \<or> (0x2000 \<le> c \<and> c \<le> 0x200A)
     \<or> c = 0x2028 \<or> c = 0x2029 \<or> c = 0x202F \<or> c = 0x205F \<or> c = 0x3000 \<or> c = 0xFEFF)"


definition trim :: "jstring \<Rightarrow> jstring" where
  "trim s = rev (dropWhile isWhiteSpace (rev (dropWhile isWhiteSpace s)))"

text \<open>
  The regular expression of the source, \<open>/^[C]{2}$/\<close> with \<open>C\<close> the range of code units
  from U+4E00 to U+9FA5: the class, its repetition a fixed number of times from the start
  of the input (\<open>^\<close>), and the end of the input (\<open>$\<close>, no \<open>m\<close> flag) right after it.
\<close>

definition inCjkClass :: "code_unit \<Rightarrow> bool" where
  "inCjkClass c = (0x4E00 \<le> c \<and> c \<le> 0x9FA5)"

fun matchClassTimes :: "nat \<Rightarrow> jstring \<Rightarrow> jstring option" where
  "matchClassTimes 0 s = Some s"
| "matchClassTimes (Suc n) [] = None"
| "matchClassTimes (Suc n) (c # cs) = (if inCjkClass c then matchClassTimes n cs else None)"

definition twoCjkTest :: "jstring \<Rightarrow> bool" where
  "twoCjkTest s = (case matchClassTimes 2 s of None \<Rightarrow> False | Some rest \<Rightarrow> rest = [])"

section \<open>Rendering one card\<close>

text \<open>The \<open>style\<close> object, the class and the text of one of the four lines of a face.\<close>

record field_div =
  style_fontSize :: css_len
  style_fontFamily :: jstring
  style_letterSpacing :: "part list"
  style_lineHeight :: number
  style_color :: string
  style_transform :: transform
  style_marginRight :: "part list"
  div_className :: string
  div_text :: jstring

text \<open>
  The four \<open>div\<close> elements of a face, in the order of the source. The condition of the
  first one is written twice, as the source writes it: once for \<open>letterSpacing\<close>, once
  for \<open>marginRight\<close>.
\<close>

fun render_field :: "layout \<Rightarrow> CardData \<Rightarrow> field \<Rightarrow> field_div" where
  "render_field lay crd ChineseName =
     \<lparr> style_fontSize = Pt (fontSize lay ChineseName),
       style_fontFamily = fontFamilies lay ChineseName,
       style_letterSpacing =
         [Num (if enableTwoCharWidening lay \<and> twoCjkTest (trim (chineseName crd))
               then 1 + 2 * letterSpacings lay ChineseName
               else letterSpacings lay ChineseName), Lit ''em''],
       style_lineHeight = 11 / 10,
       style_color = ''#000'',
       style_transform = TranslateY (Pt (offsets lay ChineseName + 25)),
       style_marginRight =
         [Lit ''-'',
          Num (if enableTwoCharWidening lay \<and> twoCjkTest (trim (chineseName crd))
               then 1 + 2 * letterSpacings lay ChineseName
               else letterSpacings lay ChineseName), Lit ''em''],
       div_className = '''',
       div_text = chineseName crd \<rparr>"
| "render_field lay crd EnglishName =
     \<lparr> style_fontSize = Pt (fontSize lay EnglishName),
       style_fontFamily = fontFamilies lay EnglishName,
       style_letterSpacing = [Num (letterSpacings lay EnglishName), Lit ''em''],
       style_lineHeight = 11 / 10,
       style_color = ''#000'',
       style_transform = TranslateY (Pt (offsets lay EnglishName + 12)),
       style_marginRight = [Lit ''-'', Num (letterSpacings lay EnglishName), Lit ''em''],
       div_className = '''',
       div_text = englishName crd \<rparr>"
| "render_field lay crd ChineseCompany =
     \<lparr> style_fontSize = Pt (fontSize lay ChineseCompany),
       style_fontFamily = fontFamilies lay ChineseCompany,
       style_letterSpacing = [Num (letterSpacings lay ChineseCompany), Lit ''em''],
       style_lineHeight = 11 / 10,
       style_color = ''#000'',
       style_transform = TranslateY (Pt (offsets lay ChineseCompany - 5)),
       style_marginRight = [Lit ''-'', Num (letterSpacings lay ChineseCompany), Lit ''em''],
       div_className = ''max-w-[80%] whitespace-normal'',
       div_text = chineseCompany crd \<rparr>"
| "render_field lay crd EnglishCompany =
     \<lparr> style_fontSize = Pt (fontSize lay EnglishCompany),
       style_fontFamily = fontFamilies lay EnglishCompany,
       style_letterSpacing = [Num (letterSpacings lay EnglishCompany), Lit ''em''],
       style_lineHeight = 11 / 10,
       style_color = ''#000'',
       style_transform = TranslateY (Pt (offsets lay EnglishCompany - 10)),
       style_marginRight = [Lit ''-'', Num (letterSpacings lay EnglishCompany), Lit ''em''],
       div_className = ''max-w-[80%] whitespace-normal'',
       div_text = englishCompany crd \<rparr>"

text \<open>One face: its class, the \<open>gap\<close> of its style and its four lines.\<close>

record card_side =
  side_className :: string
  side_gap :: css_len
  side_lines :: "field_div list"

definition render_side :: "layout \<Rightarrow> CardData \<Rightarrow> string \<Rightarrow> card_side" where
  "render_side lay crd cls =
     \<lparr> side_className = cls, side_gap = Pt (globalSpacing lay),
       side_lines = map (render_field lay crd)
         [ChineseName, EnglishName, ChineseCompany, EnglishCompany] \<rparr>"

text \<open>The two faces of \<open>print-area\<close>: the top one carries the class \<open>card-side-top\<close>.\<close>

definition render_print_area :: "layout \<Rightarrow> CardData \<Rightarrow> card_side list" where
  "render_print_area lay crd =
     map (render_side lay crd) [''card-side card-side-top'', ''card-side'']"

text \<open>
  How the text of a template begins: its literal pieces up to the first interpolated
  number, and the minus sign that the number itself is written with when it is negative.
\<close>

fun template_head :: "part list \<Rightarrow> string" where
  "template_head [] = ''''"
| "template_head (Lit s # ps) = s @ template_head ps"
| "template_head (Num v # ps) = (if v < 0 then ''-'' else '''')"

text \<open>
  A layout with a tightened English name: the tracking -0.05, as the tracking input
  stores it (\<open>parseFloat(e.target.value) || 0\<close>, with no minimum on the input).
\<close>

definition tight_layout :: layout where
  "tight_layout = initial_layout\<lparr> letterSpacings := default_letterSpacings(EnglishName := - 5 / 100) \<rparr>"

section \<open>Crop marks, page and preview block\<close>

text \<open>
  The four corner marks. Each has two inset properties in its style, built as
  \<open>`${-cropOffset.y}mm`\<close> and \<open>`${-cropOffset.x}mm`\<close>: the number is negated before it is
  interpolated.
\<close>

datatype inset_prop = InsetTop | InsetRight | InsetBottom | InsetLeft

record crop_mark =
  mark_className :: string
  mark_style :: "(inset_prop \<times> css_len) list"

definition render_crop_marks :: "layout \<Rightarrow> crop_mark list" where
  "render_crop_marks lay =
     (if showCropMarks lay then
        [\<lparr> mark_className = ''crop-mark crop-top-left'',
           mark_style = [(InsetTop, Mm (- crop_y (cropOffset lay))),
                         (InsetLeft, Mm (- crop_x (cropOffset lay)))] \<rparr>,
         \<lparr> mark_className = ''crop-mark crop-top-right'',
           mark_style = [(InsetTop, Mm (- crop_y (cropOffset lay))),
                         (InsetRight, Mm (- crop_x (cropOffset lay)))] \<rparr>,
         \<lparr> mark_className = ''crop-mark crop-bottom-left'',
           mark_style = [(InsetBottom, Mm (- crop_y (cropOffset lay))),
                         (InsetLeft, Mm (- crop_x (cropOffset lay)))] \<rparr>,
         \<lparr> mark_className = ''crop-mark crop-bottom-right'',
           mark_style = [(InsetBottom, Mm (- crop_y (cropOffset lay))),
                         (InsetRight, Mm (- crop_x (cropOffset lay)))] \<rparr>]
      else [])"

text \<open>
  Modelled from the spec: the style sheet with the rules of \<open>.crop-mark\<close> is not among the
  sources, so the marks are taken to be positioned against the content block, each at the
  corner its class names, as the specification describes them. An inset property then
  has its usual meaning: \<open>left: v\<close> puts the left edge of the box \<open>v\<close> to the right of the
  container's left edge, \<open>right: v\<close> puts its right edge \<open>v\<close> to the left of the
  container's right edge, and so for \<open>top\<close> and \<open>bottom\<close>. With the x axis to the right
  and the y axis downwards, the displacement of a mark from its corner is the following
  (in millimetres).
\<close>

fun inset_dx :: "inset_prop \<times> css_len \<Rightarrow> number" where
  "inset_dx (InsetLeft, l) = len_mm l"
| "inset_dx (InsetRight, l) = - len_mm l"
| "inset_dx (InsetTop, l) = 0"
| "inset_dx (InsetBottom, l) = 0"

fun inset_dy :: "inset_prop \<times> css_len \<Rightarrow> number" where
  "inset_dy (InsetTop, l) = len_mm l"
| "inset_dy (InsetBottom, l) = - len_mm l"
| "inset_dy (InsetLeft, l) = 0"
| "inset_dy (InsetRight, l) = 0"

definition mark_offset :: "crop_mark \<Rightarrow> number \<times> number" where
  "mark_offset m = (sum_list (map inset_dx (mark_style m)), sum_list (map inset_dy (mark_style m)))"

text \<open>\<open>card-container\<close>: the marks, the fold line when it is shown, and the two faces.\<close>

record card_container =
  cc_cropMarks :: "crop_mark list"
  cc_foldLine :: bool
  cc_printArea :: "card_side list"

definition render_card_container :: "layout \<Rightarrow> CardData \<Rightarrow> card_container" where
  "render_card_container lay crd =
     \<lparr> cc_cropMarks = render_crop_marks lay, cc_foldLine = showFoldLine lay,
       cc_printArea = render_print_area lay crd \<rparr>"

record print_page =
  page_className :: string
  page_content :: card_container

definition render_print_page :: "layout \<Rightarrow> CardData \<Rightarrow> print_page" where
  "render_print_page lay crd =
     \<lparr> page_className = ''print-page shadow-2xl'', page_content = render_card_container lay crd \<rparr>"

text \<open>
  \<open>preview-card-wrapper\<close>, one for each card of \<open>cards.map((card, index) => ...)\<close>. Its
  style holds the preview scale, the bottom margin \<open>calc(-420mm * (1 - s) + 0px)\<close> and
  the height; the divider after the page is rendered when \<open>index < cards.length - 1\<close>.
\<close>

record preview_card_wrapper =
  w_key :: jstring
  w_className :: string
  w_transform :: transform
  w_marginBottom :: calc
  w_height :: css_len
  w_page :: print_page
  w_divider :: bool

definition render_wrapper :: "layout \<Rightarrow> nat \<Rightarrow> nat \<Rightarrow> CardData \<Rightarrow> preview_card_wrapper" where
  "render_wrapper lay len index crd =
     \<lparr> w_key = card_id crd,
       w_className = ''preview-card-wrapper transition-all duration-300 origin-top'',
       w_transform = Scale (previewScale lay),
       w_marginBottom =
         CAdd (CMul (CLen (Mm (- 420))) (CSub (CNum 1) (CNum (previewScale lay)))) (CLen (Px 0)),
       w_height = Mm 420,
       w_page = render_print_page lay crd,
       w_divider = (int index < int len - 1) \<rparr>"

definition render_wrappers :: "layout \<Rightarrow> CardData list \<Rightarrow> preview_card_wrapper list" where
  "render_wrappers lay cs =
     map (\<lambda>(index, crd). render_wrapper lay (length cs) index crd) (enumerate 0 cs)"

text \<open>
  The helper \<open>cn\<close> keeps the truthy ones of its arguments (and joins them with a space):
  a class that is switched off is \<open>None\<close>, and the result is the list of the classes.
\<close>

definition cn :: "string option list \<Rightarrow> string list" where
  "cn inputs = List.map_filter (\<lambda>c. c) inputs"

record print_container =
  pc_classes :: "string list"
  pc_children :: "preview_card_wrapper list"

definition container_classes :: "layout \<Rightarrow> string list" where
  "container_classes lay =
     cn [Some ''print-container'', if printRotate lay then Some ''print-rotate-mode'' else None]"

text \<open>The preview section: the empty state when there is no card, the container otherwise.\<close>

definition render_preview :: "layout \<Rightarrow> CardData list \<Rightarrow> print_container option" where
  "render_preview lay cs =
     (if length cs = 0 then None
      else Some \<lparr> pc_classes = container_classes lay, pc_children = render_wrappers lay cs \<rparr>)"

section \<open>The print style sheet\<close>

text \<open>
  The rule \<open>.print-container:not(.print-rotate-mode) .card-container { transform:
  scale(0.83) !important }\<close> of the \<open>@media print\<close> block: it gives a transform to the
  card container exactly when the container lacks the class \<open>print-rotate-mode\<close>. The
  fit scale is the factor of that transform, and 1 when the rule does not apply: no
  other rule of the source scales the card container (its base style is in a style sheet
  that is not among the sources).
\<close>

definition print_rule_card_container :: "string list \<Rightarrow> transform option" where
  "print_rule_card_container classes =
     (if ''print-rotate-mode'' \<in> set classes then None else Some (Scale (83 / 100)))"

definition fitScale :: "print_container \<Rightarrow> number" where
  "fitScale pc =
     (case print_rule_card_container (pc_classes pc) of
        Some (Scale k) \<Rightarrow> k
      | _ \<Rightarrow> 1)"

text \<open>
  Modelled from the spec: the names \<open>PAGE_WIDTH_MM\<close> and \<open>NATIVE_CONTENT_WIDTH_MM\<close> are
  the specification's. The source has the two numbers in the comment of the print rule
  (the card of 357mm exceeds the A3 width of 297mm) and 297mm as the width of
  \<open>.print-page\<close>.
\<close>

definition PAGE_WIDTH_MM :: number where
  "PAGE_WIDTH_MM = 297"

definition NATIVE_CONTENT_WIDTH_MM :: number where
  "NATIVE_CONTENT_WIDTH_MM = 357"

section \<open>Presets\<close>

text \<open>
  The \<open>settings\<close> of a stored preset. A key that \<open>loadPreset\<close> reads through \<open>??\<close> or
  \<open>||\<close> may be missing from the stored object (\<open>undefined\<close>, or \<open>null\<close>): it is an
  option here, \<open>None\<close> when it is missing. The four keys that \<open>loadPreset\<close> reads with no
  fallback are required by the interface \<open>Preset\<close> and are plain values.
\<close>

record settings =
  p_fontSize :: "field \<Rightarrow> number"
  p_offsets :: "field \<Rightarrow> number"
  p_fontFamilies :: "field \<Rightarrow> jstring"
  p_letterSpacings :: "(field \<Rightarrow> number) option"
  p_enableTwoCharWidening :: "bool option"
  p_globalSpacing :: number
  p_previewScale :: "number option"
  p_showCropMarks :: "bool option"
  p_showFoldLine :: "bool option"
  p_cropOffset :: "CropOffset option"

record Preset =
  preset_id :: jstring
  preset_name :: jstring
  preset_settings :: settings

text \<open>The state of \<open>App\<close> that the handlers below read and write.\<close>

record app_state =
  cards :: "CardData list"
  config :: layout
  presets :: "Preset list"
  currentPresetId :: jstring
  isPresetMenuOpen :: bool

text \<open>
  \<open>a ?? b\<close> is \<open>b\<close> when \<open>a\<close> is missing. \<open>a || b\<close> is \<open>b\<close> when \<open>a\<close> is falsy: for an
  object that is when it is missing, for a number also when it is 0.
\<close>

definition nullish :: "'a option \<Rightarrow> 'a \<Rightarrow> 'a" where
  "nullish a b = (case a of None \<Rightarrow> b | Some v \<Rightarrow> v)"

definition object_or :: "'a option \<Rightarrow> 'a \<Rightarrow> 'a" where
  "object_or a b = (case a of None \<Rightarrow> b | Some v \<Rightarrow> v)"

definition number_or :: "number option \<Rightarrow> number \<Rightarrow> number" where
  "number_or a b = (case a of None \<Rightarrow> b | Some v \<Rightarrow> if v = 0 then b else v)"

text \<open>
  \<open>loadPreset\<close>: nothing happens when no preset has the identifier; otherwise each
  setter is called in the order of the source. \<open>printRotate\<close> is not part of a preset
  and keeps its value.
\<close>

definition loadPreset :: "jstring \<Rightarrow> app_state \<Rightarrow> app_state" where
  "loadPreset presetId st =
     (case find (\<lambda>p. preset_id p = presetId) (presets st) of
        None \<Rightarrow> st
      | Some preset \<Rightarrow>
          st\<lparr> config := (config st)
                \<lparr> fontSize := p_fontSize (preset_settings preset),
                  offsets := p_offsets (preset_settings preset),
                  fontFamilies := p_fontFamilies (preset_settings preset),
                  letterSpacings :=
                    object_or (p_letterSpacings (preset_settings preset)) default_letterSpacings,
                  enableTwoCharWidening :=
                    nullish (p_enableTwoCharWidening (preset_settings preset)) True,
                  showCropMarks := nullish (p_showCropMarks (preset_settings preset)) True,
                  showFoldLine := nullish (p_showFoldLine (preset_settings preset)) False,
                  cropOffset :=
                    object_or (p_cropOffset (preset_settings preset)) \<lparr> crop_x = 0, crop_y = 0 \<rparr>,
                  globalSpacing := p_globalSpacing (preset_settings preset),
                  previewScale := number_or (p_previewScale (preset_settings preset)) (75 / 100) \<rparr>,
              currentPresetId := presetId,
              isPresetMenuOpen := False \<rparr>)"

text \<open>
  A preset stored by a version of the application that did not write the optional keys
  yet, and a state that holds it.
\<close>

definition old_preset :: Preset where
  "old_preset = \<lparr> preset_id = ascii ''old'', preset_name = ascii ''2023'',
     preset_settings = \<lparr> p_fontSize = (\<lambda>f. 100), p_offsets = (\<lambda>f. 4),
       p_fontFamilies = (\<lambda>f. ascii ''inherit''), p_letterSpacings = None,
       p_enableTwoCharWidening = None, p_globalSpacing = 18, p_previewScale = None,
       p_showCropMarks = None, p_showFoldLine = None, p_cropOffset = None \<rparr> \<rparr>"

definition old_preset_state :: app_state where
  "old_preset_state = \<lparr> cards = [sample_card],
     config = initial_layout\<lparr> showFoldLine := True, showCropMarks := False,
       cropOffset := \<lparr> crop_x = 2, crop_y = 3 \<rparr> \<rparr>,
     presets = [old_preset], currentPresetId = [], isPresetMenuOpen = True \<rparr>"

section \<open>The calibration inputs\<close>


text \<open>
  The number value of a mathematical integer, given by its magnitude: the nearest
  double, a tie going to the even significand of 53 bits, and no finite double from
  \<open>2 ^ 1024\<close> on. \<open>bitLength n\<close> is the number of binary digits of \<open>n\<close>.
\<close>

fun bitLength :: "nat \<Rightarrow> nat" where
  "bitLength n = (if n = 0 then 0 else Suc (bitLength (n div 2)))"

declare bitLength.simps [simp del]

definition roundToDouble :: "nat \<Rightarrow> nat option" where
  "roundToDouble n =
     (if n < 2 ^ 53 then Some n
      else
        let e = bitLength n - 53;
            q = n div 2 ^ e;
            r = n mod 2 ^ e;
            q' = (if 2 ^ e < 2 * r \<or> (2 * r = 2 ^ e \<and> odd q) then q + 1 else q)
        in if 2 ^ 1024 \<le> q' * 2 ^ e then None else Some (q' * 2 ^ e))"



















section \<open>The font store (src/unnamed/part_000, the server)\<close>

text \<open>
  The directory of the fonts maps a file name to the bytes of the file. The request of
  an upload carries file parts, each under the name of a form field.
\<close>

type_synonym fonts_dir = "jstring \<rightharpoonup> 8 word list"

record upload_file =
  originalname :: jstring
  content :: "8 word list"

type_synonym file_part = "jstring \<times> upload_file"

record CustomFont =
  font_name :: jstring
  fileName :: jstring
  url :: jstring

datatype upload_response = Success CustomFont | Status400 string | Status500 string

text \<open>
  The \<open>filename\<close> function of the disk storage: every code unit outside
  \<open>a-z A-Z 0-9 _ .\<close> and the range U+4E00 to U+9FA5 becomes an underscore.
\<close>

definition isSafeChar :: "code_unit \<Rightarrow> bool" where
  "isSafeChar c = ((0x61 \<le> c \<and> c \<le> 0x7A) \<or> (0x41 \<le> c \<and> c \<le> 0x5A) \<or> (0x30 \<le> c \<and> c \<le> 0x39)
     \<or> c = 0x5F \<or> (0x4E00 \<le> c \<and> c \<le> 0x9FA5) \<or> c = 0x2E)"

definition safeName :: "jstring \<Rightarrow> jstring" where
  "safeName n = map (\<lambda>c. if isSafeChar c then c else 0x5F) n"

text \<open>\<open>f.split('.')[0]\<close>: the text before the first dot.\<close>

definition simpleName :: "jstring \<Rightarrow> jstring" where
  "simpleName f = takeWhile (\<lambda>c. c \<noteq> 0x2E) f"

definition fontOf :: "jstring \<Rightarrow> CustomFont" where
  "fontOf f = \<lparr> font_name = simpleName f, fileName = f, url = ascii ''/api/fonts/'' @ f \<rparr>"

text \<open>
  The middleware \<open>upload.single('fontFile')\<close> of the library multer with the disk
  storage above (the library is not part of the repository; this is its documented
  behaviour). It takes the file parts in the order of the request. A part without a file
  name is skipped. The first file under the expected field is written to the directory
  under the name the \<open>filename\<close> function gives (the write is taken to succeed) and
  becomes \<open>req.file\<close>. Any other file, under another field or a second one under the
  expected field, ends the upload with the error \<open>Unexpected field\<close>, and the file that
  the request had written is removed. No step looks at the extension: the storage is
  created without a \<open>fileFilter\<close>.
\<close>

fun multer_single ::
  "jstring \<Rightarrow> file_part list \<Rightarrow> jstring option \<Rightarrow> fonts_dir \<Rightarrow> (string + jstring option) \<times> fonts_dir"
where
  "multer_single fld [] stored dir = (Inr stored, dir)"
| "multer_single fld ((fieldname, file) # rest) stored dir =
     (if originalname file = [] then multer_single fld rest stored dir
      else if fieldname = fld \<and> stored = None then
        multer_single fld rest (Some (safeName (originalname file)))
          (dir(safeName (originalname file) \<mapsto> content file))
      else (Inl ''Unexpected field'',
            (case stored of None \<Rightarrow> dir | Some n \<Rightarrow> dir(n := None))))"

text \<open>
  \<open>POST /api/fonts\<close>: an error of the middleware is answered by the default error
  handler with status 500; the handler of the route answers 400 when \<open>req.file\<close> is
  missing, and the description of the stored font otherwise.
\<close>

definition post_fonts :: "file_part list \<Rightarrow> fonts_dir \<Rightarrow> upload_response \<times> fonts_dir" where
  "post_fonts parts dir =
     (case multer_single (ascii ''fontFile'') parts None dir of
        (Inl err, dir') \<Rightarrow> (Status500 err, dir')
      | (Inr None, dir') \<Rightarrow> (Status400 ''No file uploaded'', dir')
      | (Inr (Some filename), dir') \<Rightarrow> (Success (fontOf filename), dir'))"

text \<open>
  The test \<open>/\.(ttf|otf|woff|woff2)$/i\<close> of \<open>GET /api/fonts\<close>: the name ends with a dot
  and one of the four extensions, whatever the case of its letters. \<open>get_fonts\<close> maps
  the names that \<open>readdir\<close> returned to the list the endpoint answers.
\<close>

definition toLower :: "code_unit \<Rightarrow> code_unit" where
  "toLower c = (if 0x41 \<le> c \<and> c \<le> 0x5A then c + 0x20 else c)"

definition endsWith :: "jstring \<Rightarrow> jstring \<Rightarrow> bool" where
  "endsWith s e = (length e \<le> length s \<and> drop (length s - length e) s = e)"

definition isFontFile :: "jstring \<Rightarrow> bool" where
  "isFontFile f = list_ex (\<lambda>ext. endsWith (map toLower f) (ascii (CHR ''.'' # ext)))
     [''ttf'', ''otf'', ''woff'', ''woff2'']"

definition get_fonts :: "jstring list \<Rightarrow> CustomFont list" where
  "get_fonts files = map fontOf (filter isFontFile files)"

section \<open>Helper lemmas\<close>

lemma matchClassTimes_Some:
  "matchClassTimes n s = Some rest \<longleftrightarrow>
     (n \<le> length s \<and> (\<forall>c \<in> set (take n s). inCjkClass c) \<and> rest = drop n s)"
proof (induction n s rule: matchClassTimes.induct)
  case (1 s)
  then show ?case by auto
next
  case (2 n)
  then show ?case by simp
next
  case (3 n c cs)
  then show ?case by auto
qed

lemma twoCjkTest_iff:
  "twoCjkTest s \<longleftrightarrow> length s = 2 \<and> (\<forall>c \<in> set s. 0x4E00 \<le> c \<and> c \<le> 0x9FA5)"
proof -
  have "twoCjkTest s \<longleftrightarrow> matchClassTimes 2 s = Some []"
    by (auto simp: twoCjkTest_def split: option.splits)
  also have "\<dots> \<longleftrightarrow> (2 \<le> length s \<and> (\<forall>c \<in> set (take 2 s). inCjkClass c) \<and> drop 2 s = [])"
    by (subst matchClassTimes_Some) auto
  also have "\<dots> \<longleftrightarrow> length s = 2 \<and> (\<forall>c \<in> set s. inCjkClass c)"
    by auto
  finally show ?thesis by (simp add: inCjkClass_def)
qed

lemma map_enumerate_snd: "map (\<lambda>(i, x). f x) (enumerate n xs) = map f xs"
  by (induction xs arbitrary: n) simp_all

lemma container_classes_eq:
  "container_classes lay =
     (if printRotate lay then [''print-container'', ''print-rotate-mode''] else [''print-container''])"
  by (simp add: container_classes_def cn_def)

lemma roundToDouble_small: "n < 2 ^ 53 \<Longrightarrow> roundToDouble n = Some n"
  by (simp add: roundToDouble_def)

lemma bitLength_bounds: "n \<noteq> 0 \<Longrightarrow> 2 ^ (bitLength n - 1) \<le> n \<and> n < 2 ^ bitLength n"
proof (induction n rule: bitLength.induct)
  case (1 n)
  show ?case
  proof (cases "n div 2 = 0")
    case True
    with "1.prems" have "n = 1" by linarith
    then show ?thesis by (simp add: bitLength.simps)
  next
    case False
    with "1.IH" "1.prems"
    have ih: "2 ^ (bitLength (n div 2) - 1) \<le> n div 2" "n div 2 < 2 ^ bitLength (n div 2)"
      by simp_all
    have pos: "bitLength (n div 2) \<noteq> 0"
      using False by (simp add: bitLength.simps)
    have b: "bitLength n = Suc (bitLength (n div 2))"
      using "1.prems" by (subst bitLength.simps) simp
    have "2 * 2 ^ (bitLength (n div 2) - 1) \<le> n"
      using ih(1) by linarith
    moreover have "2 * 2 ^ (bitLength (n div 2) - 1) = (2::nat) ^ bitLength (n div 2)"
      using pos by (cases "bitLength (n div 2)") simp_all
    moreover have "n < 2 * 2 ^ bitLength (n div 2)"
      using ih(2) by linarith
    ultimately show ?thesis by (simp add: b)
  qed
qed


lemma roundToDouble_large:
  assumes "2 ^ 53 \<le> n"
  shows "\<exists>v. 2 ^ (bitLength n - 1) \<le> v
    \<and> roundToDouble n = (if 2 ^ 1024 \<le> v then None else Some v)"
proof -
  define e where "e = bitLength n - 53"
  define q where "q = n div 2 ^ e"
  define r where "r = n mod 2 ^ e"
  define q' where "q' = (if 2 ^ e < 2 * r \<or> (2 * r = 2 ^ e \<and> odd q) then q + 1 else q)"
  have n0: "n \<noteq> 0" using assms by (metis le_zero_eq power_not_zero zero_neq_numeral)
  from bitLength_bounds[OF n0] have lo: "2 ^ (bitLength n - 1) \<le> n" and hi: "n < 2 ^ bitLength n"
    by simp_all
  have "(2::nat) ^ 53 < 2 ^ bitLength n" using assms hi by linarith
  then have b: "53 < bitLength n" by (simp only: power_strict_increasing_iff one_less_numeral_iff semiring_norm)
  then have split: "bitLength n - 1 = 52 + e" by (simp add: e_def)
  have "(2::nat) ^ 52 * 2 ^ e \<le> n" using lo by (simp only: split power_add)
  then have "2 ^ 52 \<le> q" by (simp add: q_def less_eq_div_iff_mult_less_eq)
  moreover have "q \<le> q'" by (simp add: q'_def)
  ultimately have "(2::nat) ^ 52 * 2 ^ e \<le> q' * 2 ^ e"
    by (meson le_trans mult_le_mono1)
  then have low: "2 ^ (bitLength n - 1) \<le> q' * 2 ^ e" by (simp only: split power_add)
  have "roundToDouble n = (if 2 ^ 1024 \<le> q' * 2 ^ e then None else Some (q' * 2 ^ e))"
    using assms unfolding roundToDouble_def Let_def e_def q_def r_def q'_def
    by (simp only: not_less[symmetric] if_False if_True)
  then show ?thesis using low by blast
qed


lemma roundToDouble_zero:
  assumes "roundToDouble n = Some v"
  shows "v = 0 \<longleftrightarrow> n = 0"
proof (cases "n < 2 ^ 53")
  case True
  then show ?thesis using assms by (simp add: roundToDouble_small)
next
  case False
  then have big: "2 ^ 53 \<le> n" by simp
  from roundToDouble_large[OF big] obtain w where
    w: "2 ^ (bitLength n - 1) \<le> w" "roundToDouble n = (if 2 ^ 1024 \<le> w then None else Some w)"
    by blast
  have "w = v" using w(2) assms by (cases "2 ^ 1024 \<le> w") (simp_all only: if_True if_False option.simps)
  moreover have "0 < w" using w(1) by (metis gr0I le_zero_eq power_not_zero zero_neq_numeral)
  moreover have "n \<noteq> 0" using big by (metis le_zero_eq power_not_zero zero_neq_numeral)
  ultimately show ?thesis by simp
qed



























section \<open>Fit scale\<close>

text \<open>
  C1, as it holds on the code. Whatever the cards, the print rule scales the card
  container by 0.83 when \<open>printRotate\<close> is off and leaves it unscaled (factor 1) when it
  is on; the factor depends on the flag alone. The source writes the rounded constant
  0.83, not the quotient 297/357; at that factor the 357mm of the content fit the 297mm
  of the page.
\<close>

theorem fitScale_by_printRotate:
  assumes "render_preview lay cs = Some pc"
  shows "fitScale pc = (if printRotate lay then 1 else 83 / 100)
    \<and> (\<not> printRotate lay \<longrightarrow> NATIVE_CONTENT_WIDTH_MM * fitScale pc \<le> PAGE_WIDTH_MM)"
proof -
  have "pc_classes pc = container_classes lay"
    using assms by (auto simp: render_preview_def split: if_splits)
  then show ?thesis
    by (simp add: fitScale_def print_rule_card_container_def container_classes_eq
        NATIVE_CONTENT_WIDTH_MM_def PAGE_WIDTH_MM_def)
qed

theorem fitScale_by_printRotate_witness:
  "render_preview (initial_layout\<lparr> printRotate := False \<rparr>) [sample_card]
     = Some \<lparr> pc_classes = [''print-container''],
         pc_children = render_wrappers (initial_layout\<lparr> printRotate := False \<rparr>) [sample_card] \<rparr>
   \<and> fitScale \<lparr> pc_classes = [''print-container''],
         pc_children = render_wrappers (initial_layout\<lparr> printRotate := False \<rparr>) [sample_card] \<rparr>
     = 83 / 100
   \<and> render_preview initial_layout [sample_card]
     = Some \<lparr> pc_classes = [''print-container'', ''print-rotate-mode''],
         pc_children = render_wrappers initial_layout [sample_card] \<rparr>
   \<and> fitScale \<lparr> pc_classes = [''print-container'', ''print-rotate-mode''],
         pc_children = render_wrappers initial_layout [sample_card] \<rparr> = 1"
proof -
  have off: "render_preview (initial_layout\<lparr> printRotate := False \<rparr>) [sample_card]
     = Some \<lparr> pc_classes = [''print-container''],
         pc_children = render_wrappers (initial_layout\<lparr> printRotate := False \<rparr>) [sample_card] \<rparr>"
    by (simp add: render_preview_def container_classes_eq)
  have on: "render_preview initial_layout [sample_card]
     = Some \<lparr> pc_classes = [''print-container'', ''print-rotate-mode''],
         pc_children = render_wrappers initial_layout [sample_card] \<rparr>"
    by (simp add: render_preview_def container_classes_eq initial_layout_def)
  show ?thesis
    using fitScale_by_printRotate[OF off] fitScale_by_printRotate[OF on] off on
    by (simp add: initial_layout_def)
qed

text \<open>
  C1 as the specification states it fails: with \<open>printRotate\<close> off the factor is 83/100,
  which is not \<open>PAGE_WIDTH_MM / NATIVE_CONTENT_WIDTH_MM\<close> = 297/357.
\<close>

theorem fitScale_exact_quotient_counterexample:
  "\<not> printRotate (initial_layout\<lparr> printRotate := False \<rparr>)
   \<and> map_option fitScale (render_preview (initial_layout\<lparr> printRotate := False \<rparr>) [sample_card])
       = Some (83 / 100)
   \<and> map_option fitScale (render_preview (initial_layout\<lparr> printRotate := False \<rparr>) [sample_card])
       \<noteq> Some (PAGE_WIDTH_MM / NATIVE_CONTENT_WIDTH_MM)"
  by (simp add: render_preview_def container_classes_eq fitScale_def
      print_rule_card_container_def PAGE_WIDTH_MM_def NATIVE_CONTENT_WIDTH_MM_def)

section \<open>Tracking of the Chinese name\<close>

text \<open>
  C2. With widening enabled, the letter spacing of the Chinese name is \<open>1 + 2 * t\<close> em
  when the trimmed name is exactly two code units of the range U+4E00 to U+9FA5 (the
  range of the source's character class), and the base tracking \<open>t\<close> em for every other
  string: the whole trimmed string is matched.
\<close>

theorem chineseName_tracking:
  assumes "enableTwoCharWidening lay"
  shows "style_letterSpacing (render_field lay crd ChineseName) =
    [Num (if length (trim (chineseName crd)) = 2
             \<and> (\<forall>c \<in> set (trim (chineseName crd)). 0x4E00 \<le> c \<and> c \<le> 0x9FA5)
          then 1 + 2 * letterSpacings lay ChineseName
          else letterSpacings lay ChineseName), Lit ''em'']"
  using assms by (simp add: twoCjkTest_iff)

theorem chineseName_tracking_witness:
  "enableTwoCharWidening initial_layout
   \<and> style_letterSpacing (render_field initial_layout sample_card ChineseName)
       = [Num (12 / 10), Lit ''em'']
   \<and> style_letterSpacing
       (render_field initial_layout (sample_card\<lparr> chineseName := [0x20, 0x5F20, 0x4E09, 0x0A] \<rparr>) ChineseName)
       = [Num (12 / 10), Lit ''em'']
   \<and> style_letterSpacing
       (render_field initial_layout (sample_card\<lparr> chineseName := [] \<rparr>) ChineseName)
       = [Num (1 / 10), Lit ''em'']
   \<and> style_letterSpacing
       (render_field initial_layout (sample_card\<lparr> chineseName := [0x5F20, 0x4E09, 0x2E] \<rparr>) ChineseName)
       = [Num (1 / 10), Lit ''em'']
   \<and> style_letterSpacing
       (render_field initial_layout (sample_card\<lparr> chineseName := [0x5F20, 0xFF0C, 0x4E09] \<rparr>) ChineseName)
       = [Num (1 / 10), Lit ''em'']"
proof -
  have w: "enableTwoCharWidening initial_layout"
    by (simp add: initial_layout_def)
  have t: "letterSpacings initial_layout ChineseName = 1 / 10"
    by (simp add: initial_layout_def default_letterSpacings_def)
  show ?thesis
    using chineseName_tracking[OF w, of sample_card]
      chineseName_tracking[OF w, of "sample_card\<lparr> chineseName := [0x20, 0x5F20, 0x4E09, 0x0A] \<rparr>"]
      chineseName_tracking[OF w, of "sample_card\<lparr> chineseName := [] \<rparr>"]
      chineseName_tracking[OF w, of "sample_card\<lparr> chineseName := [0x5F20, 0x4E09, 0x2E] \<rparr>"]
      chineseName_tracking[OF w, of "sample_card\<lparr> chineseName := [0x5F20, 0xFF0C, 0x4E09] \<rparr>"]
    by (simp add: w t sample_card_def trim_def isWhiteSpace_def)
qed

section \<open>Margin compensation\<close>

text \<open>
  C4 at a negative tracking. With the tracking of the English name at -0.05 the text of
  \<open>letterSpacing\<close> is the number -0.05 followed by \<open>em\<close>, and the text of \<open>marginRight\<close>
  is a minus sign, the same number and \<open>em\<close>: the sign is put in front by string
  concatenation, so the text begins with two minus signs and is not a length.
\<close>

theorem marginRight_negative_tracking:
  "style_letterSpacing (render_field tight_layout sample_card EnglishName)
     = [Num (- 5 / 100), Lit ''em'']
   \<and> style_marginRight (render_field tight_layout sample_card EnglishName)
     = [Lit ''-'', Num (- 5 / 100), Lit ''em'']
   \<and> template_head (style_marginRight (render_field tight_layout sample_card EnglishName)) = ''--''"
  by (simp add: tight_layout_def initial_layout_def)

section \<open>Crop marks\<close>

text \<open>
  C6. When the crop marks are shown there are four of them, one at each corner, and
  with \<open>(x, y)\<close> the crop offset their displacements from their corners are \<open>(-x, -y)\<close> at
  the top left, \<open>(x, -y)\<close> at the top right, \<open>(-x, y)\<close> at the bottom left and \<open>(x, y)\<close> at
  the bottom right: the same magnitude, each directed away from the centre.
\<close>

theorem crop_mark_offsets:
  assumes "showCropMarks lay"
  shows "map (\<lambda>m. (mark_className m, mark_offset m)) (render_crop_marks lay) =
    [(''crop-mark crop-top-left'', (- crop_x (cropOffset lay), - crop_y (cropOffset lay))),
     (''crop-mark crop-top-right'', (crop_x (cropOffset lay), - crop_y (cropOffset lay))),
     (''crop-mark crop-bottom-left'', (- crop_x (cropOffset lay), crop_y (cropOffset lay))),
     (''crop-mark crop-bottom-right'', (crop_x (cropOffset lay), crop_y (cropOffset lay)))]"
  using assms by (simp add: render_crop_marks_def mark_offset_def)

theorem crop_mark_offsets_witness:
  "showCropMarks (initial_layout\<lparr> cropOffset := \<lparr> crop_x = 2, crop_y = 3 \<rparr> \<rparr>)
   \<and> map (\<lambda>m. (mark_className m, mark_offset m))
       (render_crop_marks (initial_layout\<lparr> cropOffset := \<lparr> crop_x = 2, crop_y = 3 \<rparr> \<rparr>)) =
    [(''crop-mark crop-top-left'', (- 2, - 3)),
     (''crop-mark crop-top-right'', (2, - 3)),
     (''crop-mark crop-bottom-left'', (- 2, 3)),
     (''crop-mark crop-bottom-right'', (2, 3))]"
proof -
  have s: "showCropMarks (initial_layout\<lparr> cropOffset := \<lparr> crop_x = 2, crop_y = 3 \<rparr> \<rparr>)"
    by (simp add: initial_layout_def)
  show ?thesis
    using crop_mark_offsets[OF s] s by simp
qed

section \<open>Bottom margin of the preview block\<close>

text \<open>
  C7. Every preview block of every list of cards has the bottom margin
  \<open>-420mm * (1 - previewScale)\<close>; it is -105mm at the scale 0.75 and 0 at the scale 1.
\<close>

theorem preview_marginBottom:
  assumes "w \<in> set (render_wrappers lay cs)"
  shows "calc_mm (w_marginBottom w) = - 420 * (1 - previewScale lay)"
  using assms by (auto simp: render_wrappers_def render_wrapper_def)

theorem preview_marginBottom_witness:
  "render_wrapper initial_layout 2 0 sample_card \<in> set (render_wrappers initial_layout [sample_card, empty_card])
   \<and> previewScale initial_layout = 75 / 100
   \<and> calc_mm (w_marginBottom (render_wrapper initial_layout 2 0 sample_card)) = - 105
   \<and> render_wrapper (initial_layout\<lparr> previewScale := 1 \<rparr>) 1 0 sample_card
       \<in> set (render_wrappers (initial_layout\<lparr> previewScale := 1 \<rparr>) [sample_card])
   \<and> calc_mm (w_marginBottom (render_wrapper (initial_layout\<lparr> previewScale := 1 \<rparr>) 1 0 sample_card)) = 0"
proof -
  have a: "render_wrapper initial_layout 2 0 sample_card
      \<in> set (render_wrappers initial_layout [sample_card, empty_card])"
    by (simp add: render_wrappers_def numeral_2_eq_2)
  have b: "render_wrapper (initial_layout\<lparr> previewScale := 1 \<rparr>) 1 0 sample_card
       \<in> set (render_wrappers (initial_layout\<lparr> previewScale := 1 \<rparr>) [sample_card])"
    by (simp add: render_wrappers_def)
  have s: "previewScale initial_layout = 75 / 100"
    by (simp add: initial_layout_def)
  show ?thesis
    using preview_marginBottom[OF a] preview_marginBottom[OF b] a b s by simp
qed

section \<open>Vertical placement\<close>

text \<open>
  C8. The vertical translation of a field is its configured offset plus a constant of
  the field: 25pt for the Chinese name, 12pt for the English name, -5pt for the Chinese
  company, -10pt for the English company.
\<close>

theorem field_translateY:
  "style_transform (render_field lay crd f) =
     TranslateY (Pt (offsets lay f +
       (case f of ChineseName \<Rightarrow> 25 | EnglishName \<Rightarrow> 12 | ChineseCompany \<Rightarrow> - 5
        | EnglishCompany \<Rightarrow> - 10)))"
  by (cases f) simp_all

theorem field_translateY_witness:
  "map (\<lambda>f. style_transform (render_field (initial_layout\<lparr> offsets := (\<lambda>f. 3) \<rparr>) sample_card f))
     [ChineseName, EnglishName, ChineseCompany, EnglishCompany]
   = [TranslateY (Pt 28), TranslateY (Pt 15), TranslateY (Pt (- 2)), TranslateY (Pt (- 7))]"
  using field_translateY[of "initial_layout\<lparr> offsets := (\<lambda>f. 3) \<rparr>" sample_card ChineseName]
    field_translateY[of "initial_layout\<lparr> offsets := (\<lambda>f. 3) \<rparr>" sample_card EnglishName]
    field_translateY[of "initial_layout\<lparr> offsets := (\<lambda>f. 3) \<rparr>" sample_card ChineseCompany]
    field_translateY[of "initial_layout\<lparr> offsets := (\<lambda>f. 3) \<rparr>" sample_card EnglishCompany]
  by simp


section \<open>Font upload\<close>

text \<open>
  C3, as it holds on the code. The upload of one file under the field \<open>fontFile\<close> whose
  name does not end in one of the four extensions is not rejected: the server answers
  with the description of the font, stores the bytes under the sanitised name and leaves
  every other file as it was.
\<close>

theorem post_fonts_stores_any_extension:
  assumes "originalname file \<noteq> []" and "\<not> isFontFile (originalname file)"
  shows "fst (post_fonts [(ascii ''fontFile'', file)] dir)
      = Success (fontOf (safeName (originalname file)))
    \<and> snd (post_fonts [(ascii ''fontFile'', file)] dir) (safeName (originalname file))
      = Some (content file)
    \<and> (\<forall>n. n \<noteq> safeName (originalname file) \<longrightarrow>
          snd (post_fonts [(ascii ''fontFile'', file)] dir) n = dir n)"
  using assms(1) by (simp add: post_fonts_def)

theorem post_fonts_stores_any_extension_witness:
  "originalname \<lparr> originalname = ascii ''my font.exe'', content = [0x4D, 0x5A] \<rparr> \<noteq> []
   \<and> \<not> isFontFile (ascii ''my font.exe'')
   \<and> fst (post_fonts [(ascii ''fontFile'',
          \<lparr> originalname = ascii ''my font.exe'', content = [0x4D, 0x5A] \<rparr>)] Map.empty)
       = Success \<lparr> font_name = ascii ''my_font'', fileName = ascii ''my_font.exe'',
           url = ascii ''/api/fonts/my_font.exe'' \<rparr>
   \<and> snd (post_fonts [(ascii ''fontFile'',
          \<lparr> originalname = ascii ''my font.exe'', content = [0x4D, 0x5A] \<rparr>)] Map.empty)
       (ascii ''my_font.exe'') = Some [0x4D, 0x5A]"
proof -
  have e: "originalname \<lparr> originalname = ascii ''my font.exe'', content = [0x4D, 0x5A] \<rparr> \<noteq> []"
    by (simp add: ascii_def)
  have n: "\<not> isFontFile (originalname \<lparr> originalname = ascii ''my font.exe'', content = [0x4D, 0x5A] \<rparr>)"
    by (simp add: isFontFile_def endsWith_def ascii_def toLower_def)
  have s: "safeName (ascii ''my font.exe'') = ascii ''my_font.exe''"
    by (simp add: safeName_def isSafeChar_def ascii_def)
  have f: "fontOf (ascii ''my_font.exe'') = \<lparr> font_name = ascii ''my_font'',
      fileName = ascii ''my_font.exe'', url = ascii ''/api/fonts/my_font.exe'' \<rparr>"
    by (simp add: fontOf_def simpleName_def ascii_def)
  show ?thesis
    using post_fonts_stores_any_extension[OF e n, of Map.empty] e n
    by (simp add: s f)
qed

text \<open>
  C3 as the specification states it fails: the upload of \<open>a.exe\<close>, whose extension is
  not accepted, is answered with success and the file is in the store afterwards.
\<close>

theorem post_fonts_rejects_extension_counterexample:
  "\<not> isFontFile (ascii ''a.exe'')
   \<and> fst (post_fonts [(ascii ''fontFile'', \<lparr> originalname = ascii ''a.exe'', content = [0x4D, 0x5A] \<rparr>)]
          Map.empty)
       = Success \<lparr> font_name = ascii ''a'', fileName = ascii ''a.exe'', url = ascii ''/api/fonts/a.exe'' \<rparr>
   \<and> snd (post_fonts [(ascii ''fontFile'', \<lparr> originalname = ascii ''a.exe'', content = [0x4D, 0x5A] \<rparr>)]
          Map.empty)
       (ascii ''a.exe'') = Some [0x4D, 0x5A]"
proof -
  have "\<not> isFontFile (ascii ''a.exe'')"
    by (simp add: isFontFile_def endsWith_def ascii_def toLower_def)
  moreover have "ascii ''a.exe'' \<noteq> []"
    by (simp add: ascii_def)
  moreover have "safeName (ascii ''a.exe'') = ascii ''a.exe''"
    by (simp add: safeName_def isSafeChar_def ascii_def)
  moreover have "fontOf (ascii ''a.exe'') = \<lparr> font_name = ascii ''a'', fileName = ascii ''a.exe'',
      url = ascii ''/api/fonts/a.exe'' \<rparr>"
    by (simp add: fontOf_def simpleName_def ascii_def)
  ultimately show ?thesis by (simp add: post_fonts_def)
qed

section \<open>Loading a preset\<close>

text \<open>
  C5. Loading a stored preset gives a complete layout whatever optional keys its
  settings lack: a missing \<open>showFoldLine\<close> becomes false, a missing \<open>showCropMarks\<close> true,
  a missing \<open>cropOffset\<close> the origin, and likewise the letter spacings, the widening
  switch and the preview scale get their defaults; the keys that are present are taken
  over. Loading an identifier that no preset has changes nothing.
\<close>

theorem loadPreset_defaults:
  assumes "find (\<lambda>p. preset_id p = pid) (presets st) = Some p"
  shows "config (loadPreset pid st) =
    \<lparr> fontSize = p_fontSize (preset_settings p),
      offsets = p_offsets (preset_settings p),
      fontFamilies = p_fontFamilies (preset_settings p),
      letterSpacings = (case p_letterSpacings (preset_settings p) of
          None \<Rightarrow> default_letterSpacings | Some v \<Rightarrow> v),
      globalSpacing = p_globalSpacing (preset_settings p),
      printRotate = printRotate (config st),
      previewScale = (case p_previewScale (preset_settings p) of
          None \<Rightarrow> 75 / 100 | Some v \<Rightarrow> if v = 0 then 75 / 100 else v),
      enableTwoCharWidening = (case p_enableTwoCharWidening (preset_settings p) of
          None \<Rightarrow> True | Some b \<Rightarrow> b),
      showCropMarks = (case p_showCropMarks (preset_settings p) of None \<Rightarrow> True | Some b \<Rightarrow> b),
      showFoldLine = (case p_showFoldLine (preset_settings p) of None \<Rightarrow> False | Some b \<Rightarrow> b),
      cropOffset = (case p_cropOffset (preset_settings p) of
          None \<Rightarrow> \<lparr> crop_x = 0, crop_y = 0 \<rparr> | Some c \<Rightarrow> c) \<rparr>
    \<and> currentPresetId (loadPreset pid st) = pid
    \<and> cards (loadPreset pid st) = cards st"
  using assms
  by (cases "config st")
    (simp add: loadPreset_def nullish_def object_or_def number_or_def split: option.splits)

theorem loadPreset_defaults_witness:
  "find (\<lambda>p. preset_id p = ascii ''old'') (presets old_preset_state) = Some old_preset
   \<and> p_showFoldLine (preset_settings old_preset) = None
   \<and> p_showCropMarks (preset_settings old_preset) = None
   \<and> p_cropOffset (preset_settings old_preset) = None
   \<and> config (loadPreset (ascii ''old'') old_preset_state) =
       \<lparr> fontSize = (\<lambda>f. 100), offsets = (\<lambda>f. 4), fontFamilies = (\<lambda>f. ascii ''inherit''),
         letterSpacings = default_letterSpacings, globalSpacing = 18, printRotate = True,
         previewScale = 75 / 100, enableTwoCharWidening = True, showCropMarks = True,
         showFoldLine = False, cropOffset = \<lparr> crop_x = 0, crop_y = 0 \<rparr> \<rparr>"
proof -
  have f: "find (\<lambda>p. preset_id p = ascii ''old'') (presets old_preset_state) = Some old_preset"
    by (simp add: old_preset_state_def old_preset_def)
  show ?thesis
    using loadPreset_defaults[OF f] f
    by (simp add: old_preset_def old_preset_state_def initial_layout_def)
qed

section \<open>Order of the pages\<close>

text \<open>
  C9. The pages of the preview are the pages of the cards, one for each card and in the
  order of the list, and the page of a card is a function of the card and the layout
  alone; so are the scale, the margin and the height of its block. Hence rendering a
  list rearranged by any choice of indices gives the pages of the original list
  rearranged in the same way. (Of the block, only the divider shown between two pages on
  screen, which is not part of the page, depends on the position.)
\<close>

theorem pages_follow_cards:
  assumes "\<forall>i \<in> set idx. i < length cs"
  shows "map w_page (render_wrappers lay cs) = map (render_print_page lay) cs
    \<and> map (\<lambda>w. (w_key w, w_transform w, w_marginBottom w, w_height w)) (render_wrappers lay cs)
        = map (\<lambda>c. (card_id c, Scale (previewScale lay),
              CAdd (CMul (CLen (Mm (- 420))) (CSub (CNum 1) (CNum (previewScale lay)))) (CLen (Px 0)),
              Mm 420)) cs
    \<and> map w_page (render_wrappers lay (map (\<lambda>i. cs ! i) idx))
        = map (\<lambda>i. map w_page (render_wrappers lay cs) ! i) idx"
proof -
  have pages: "map w_page (render_wrappers lay xs) = map (render_print_page lay) xs" for xs
    by (simp add: render_wrappers_def render_wrapper_def split_def o_def
        map_enumerate_snd[unfolded split_def])
  have style: "map (\<lambda>w. (w_key w, w_transform w, w_marginBottom w, w_height w)) (render_wrappers lay cs)
        = map (\<lambda>c. (card_id c, Scale (previewScale lay),
              CAdd (CMul (CLen (Mm (- 420))) (CSub (CNum 1) (CNum (previewScale lay)))) (CLen (Px 0)),
              Mm 420)) cs"
    using map_enumerate_snd[of "\<lambda>c. (card_id c, Scale (previewScale lay),
              CAdd (CMul (CLen (Mm (- 420))) (CSub (CNum 1) (CNum (previewScale lay)))) (CLen (Px 0)),
              Mm 420)" 0 cs]
    by (simp add: render_wrappers_def render_wrapper_def split_def o_def)
  have "map w_page (render_wrappers lay (map (\<lambda>i. cs ! i) idx))
        = map (\<lambda>i. render_print_page lay (cs ! i)) idx"
    by (simp add: pages o_def)
  also have "\<dots> = map (\<lambda>i. map w_page (render_wrappers lay cs) ! i) idx"
    using assms by (simp add: pages)
  finally show ?thesis using pages style by simp
qed

theorem pages_follow_cards_witness:
  "(1::nat) < length [sample_card, empty_card] \<and> (0::nat) < length [sample_card, empty_card]
   \<and> map w_page (render_wrappers initial_layout [empty_card, sample_card])
       = [render_print_page initial_layout empty_card, render_print_page initial_layout sample_card]
   \<and> map w_page (render_wrappers initial_layout [sample_card, empty_card])
       = [render_print_page initial_layout sample_card, render_print_page initial_layout empty_card]"
proof -
  have h: "\<forall>i \<in> set [1, 0 :: nat]. i < length [sample_card, empty_card]"
    by simp
  show ?thesis
    using pages_follow_cards[OF h, of initial_layout]
    by simp
qed

section \<open>Calibration inputs\<close>





end
